theory Spec2Isabelle
  imports Complex_Main
begin

section \<open>The label sheet generator: layout arithmetic and grid rendering\<close>

text \<open>
  The program (\<^verbatim>\<open>streamlit-main.py\<close>) places one image repeatedly on a page, in a grid
  of rows and columns. \<^verbatim>\<open>calculate_layout\<close> computes the size of a cell and the gap
  between cells, \<^verbatim>\<open>create_pdf_labels\<close> issues one \<^verbatim>\<open>drawImage\<close> call per cell and saves
  the document, and the loop of \<^verbatim>\<open>main\<close> does both for every uploaded file inside a
  \<^verbatim>\<open>try\<close> block.

  Numbers: the Python code computes with floats. They are modelled as exact reals, so
  every statement below is about the exact arithmetic of the formulas, without rounding,
  infinities or NaN. Row and column counts are Python integers (\<open>int\<close>).
\<close>

subsection \<open>Data\<close>

text \<open>The exceptions that the modelled code can raise.\<close>

datatype error =
    TooLarge            \<comment> \<open>the \<^verbatim>\<open>ValueError\<close> raised by \<^verbatim>\<open>calculate_layout\<close>\<close>
  | ZeroDivisionError   \<comment> \<open>a float division by zero\<close>
  | InputFormatError    \<comment> \<open>the \<^verbatim>\<open>ValueError\<close> of parsing the dimension text\<close>
  | BackendFailure      \<comment> \<open>an exception of the file system or of the drawing library\<close>

text \<open>\<^verbatim>\<open>page_settings['margins']\<close>: a dictionary with the four keys below, in millimetres.\<close>

record margins =
  top_margin :: real
  bottom_margin :: real
  left_margin :: real
  right_margin :: real

datatype orientation = Portrait | Landscape

text \<open>\<^verbatim>\<open>page_settings\<close>: the page size is in points, the margins are in millimetres.\<close>

record page_settings =
  page_size :: "real \<times> real"
  margins :: margins
  orientation :: orientation

text \<open>
  \<^verbatim>\<open>label_info\<close>: the key \<^verbatim>\<open>'dimensions'\<close> (width and height of a label in millimetres)
  may be absent.
\<close>

record label_info =
  path :: string
  rows :: int
  columns :: int
  dimensions :: "(real \<times> real) option"

text \<open>The dictionary returned by \<^verbatim>\<open>calculate_layout\<close>, in points.\<close>

record layout =
  label_width :: real
  label_height :: real
  space_x :: real
  space_y :: real

subsection \<open>Units and division\<close>

text \<open>
  \<^verbatim>\<open>reportlab.lib.units.mm\<close>, the number of points in a millimetre. The library defines
  \<^verbatim>\<open>inch = 72.0\<close>, \<^verbatim>\<open>cm = inch / 2.54\<close> and \<^verbatim>\<open>mm = cm * 0.1\<close>, that is \<open>72 / 25.4\<close>.
\<close>

definition mm :: real where
  "mm = 360 / 127"

text \<open>Python's \<^verbatim>\<open>/\<close> raises \<^verbatim>\<open>ZeroDivisionError\<close> when the divisor is zero.\<close>

definition truediv :: "real \<Rightarrow> real \<Rightarrow> error + real" where
  "truediv a b = (if b = 0 then Inl ZeroDivisionError else Inr (a / b))"

definition bind_err :: "error + 'a \<Rightarrow> ('a \<Rightarrow> error + 'b) \<Rightarrow> error + 'b" where
  "bind_err r f = (case r of Inl e \<Rightarrow> Inl e | Inr v \<Rightarrow> f v)"

subsection \<open>\<^verbatim>\<open>calculate_layout\<close>\<close>

text \<open>
  Lines 15 to 18: the margins are converted to points and subtracted from the page size.
\<close>

definition available_width :: "page_settings \<Rightarrow> real" where
  "available_width page_settings =
     fst (page_size page_settings)
       - (left_margin (margins page_settings) * mm + right_margin (margins page_settings) * mm)"

definition available_height :: "page_settings \<Rightarrow> real" where
  "available_height page_settings =
     snd (page_size page_settings)
       - (top_margin (margins page_settings) * mm + bottom_margin (margins page_settings) * mm)"

text \<open>
  Lines 20 to 27: the size of a label in points. Without \<^verbatim>\<open>'dimensions'\<close> it is derived
  from the available area, and the function stores the derived size, in millimetres, in
  its argument \<^verbatim>\<open>label_info\<close>: the (possibly updated) dictionary is returned beside the
  size. With \<^verbatim>\<open>'dimensions'\<close> the given size is converted to points.
\<close>

definition label_size :: "page_settings \<Rightarrow> label_info \<Rightarrow> error + (label_info \<times> real \<times> real)" where
  "label_size page_settings label_info =
     (case dimensions label_info of
        None \<Rightarrow>
          bind_err (truediv (available_width page_settings) (of_int (columns label_info))) (\<lambda>lw.
          bind_err (truediv (available_height page_settings) (of_int (rows label_info))) (\<lambda>lh.
          bind_err (truediv lw mm) (\<lambda>lw_mm.
          bind_err (truediv lh mm) (\<lambda>lh_mm.
            Inr (label_info\<lparr>dimensions := Some (lw_mm, lh_mm)\<rparr>, lw, lh)))))
      | Some (w, h) \<Rightarrow> Inr (label_info, w * mm, h * mm))"

text \<open>
  The whole function. The result is the state of the argument \<^verbatim>\<open>label_info\<close> when the
  function exits, and either the exception raised or the dictionary returned. The spacing
  (lines 29 and 30) is computed before the check of line 32.
\<close>

definition calculate_layout :: "page_settings \<Rightarrow> label_info \<Rightarrow> label_info \<times> (error + layout)" where
  "calculate_layout page_settings label_info =
     (case label_size page_settings label_info of
        Inl e \<Rightarrow> (label_info, Inl e)
      | Inr (label_info', lw, lh) \<Rightarrow>
          (label_info',
           bind_err (truediv (available_width page_settings - lw * of_int (columns label_info'))
                             (of_int (max (columns label_info' - 1) 1))) (\<lambda>space_between_labels_x.
           bind_err (truediv (available_height page_settings - lh * of_int (rows label_info'))
                             (of_int (max (rows label_info' - 1) 1))) (\<lambda>space_between_labels_y.
             if lw > available_width page_settings \<or> lh > available_height page_settings
             then Inl TooLarge
             else Inr \<lparr>label_width = lw, label_height = lh,
                       space_x = space_between_labels_x, space_y = space_between_labels_y\<rparr>))))"

subsection \<open>The outside world\<close>

text \<open>
  The drawing library (reportlab), the file system and the user interface (streamlit) are
  not part of the program. Their calls are recorded, in order, in a log of events. A call
  of the library or the file system may raise an exception; the calls of the user
  interface are taken to succeed.
\<close>

datatype event =
    WriteUpload string "nat list"
      \<comment> \<open>\<^verbatim>\<open>open(label_image_path, "wb")\<close> and \<^verbatim>\<open>f.write(label_file.getbuffer())\<close>\<close>
  | NewCanvas string "real \<times> real"
      \<comment> \<open>\<^verbatim>\<open>canvas.Canvas(output_file, pagesize=...)\<close>\<close>
  | ReadImage string
      \<comment> \<open>\<^verbatim>\<open>ImageReader(label_info['path'])\<close>\<close>
  | DrawImage string real real real real bool
      \<comment> \<open>\<^verbatim>\<open>c.drawImage(label_image, x, y, width=, height=, preserveAspectRatio=)\<close>\<close>
  | Save string
      \<comment> \<open>\<^verbatim>\<open>c.save()\<close>, on the canvas of the named output file\<close>
  | ReadFile string
      \<comment> \<open>\<^verbatim>\<open>open(output_file, "rb").read()\<close>\<close>
  | StSuccess string
      \<comment> \<open>\<^verbatim>\<open>st.success\<close>, for the named upload\<close>
  | StDownload string
      \<comment> \<open>\<^verbatim>\<open>st.download_button\<close>, offering the named output file\<close>
  | StError string error
      \<comment> \<open>\<^verbatim>\<open>st.error\<close>, for the named upload\<close>

text \<open>
  What the program does not fix is a parameter: \<open>accepts\<close> says, from the log so far,
  whether a call of the library or of the file system returns (otherwise it raises), and
  the other fields are the library functions \<^verbatim>\<open>Path(...).stem\<close>, \<^verbatim>\<open>str(Path(...))\<close>,
  \<^verbatim>\<open>str.lower\<close> and \<^verbatim>\<open>str\<close> on integers, which only build file names.
\<close>

record env =
  accepts :: "event list \<Rightarrow> event \<Rightarrow> bool"
  stem :: "string \<Rightarrow> string"
  path_str :: "string \<Rightarrow> string"
  lower :: "string \<Rightarrow> string"
  str_of_int :: "int \<Rightarrow> string"

text \<open>Python's \<^verbatim>\<open>range(n)\<close>: empty when \<open>n \<le> 0\<close>.\<close>

definition py_range :: "int \<Rightarrow> int list" where
  "py_range n = map int [0..<nat n]"

subsection \<open>\<^verbatim>\<open>create_pdf_labels\<close>\<close>

text \<open>Lines 41 to 43, the body of the inner loop: the call for the cell at \<open>(row, col)\<close>.\<close>

definition draw_call :: "page_settings \<Rightarrow> label_info \<Rightarrow> layout \<Rightarrow> int \<Rightarrow> int \<Rightarrow> event" where
  "draw_call page_settings label_info layout row col =
     (let x = left_margin (margins page_settings) * mm
                + of_int col * (label_width layout + space_x layout);
          y = snd (page_size page_settings)
                - (top_margin (margins page_settings) * mm
                   + of_int (row + 1) * label_height layout + of_int row * space_y layout)
      in DrawImage (path label_info) x y (label_width layout) (label_height layout) True)"

text \<open>
  The two loops. A loop returns the log and, when a call raised, the exception: the
  remaining iterations are then not run.
\<close>

fun inner_loop ::
  "env \<Rightarrow> page_settings \<Rightarrow> label_info \<Rightarrow> layout \<Rightarrow> int \<Rightarrow> int list \<Rightarrow> event list
     \<Rightarrow> event list \<times> error option" where
  "inner_loop e ps li lay row [] tr = (tr, None)"
| "inner_loop e ps li lay row (col # cols) tr =
     (if accepts e tr (draw_call ps li lay row col)
      then inner_loop e ps li lay row cols (tr @ [draw_call ps li lay row col])
      else (tr, Some BackendFailure))"

fun outer_loop ::
  "env \<Rightarrow> page_settings \<Rightarrow> label_info \<Rightarrow> layout \<Rightarrow> int list \<Rightarrow> event list
     \<Rightarrow> event list \<times> error option" where
  "outer_loop e ps li lay [] tr = (tr, None)"
| "outer_loop e ps li lay (row # rws) tr =
     (case inner_loop e ps li lay row (py_range (columns li)) tr of
        (tr', None) \<Rightarrow> outer_loop e ps li lay rws tr'
      | (tr', Some err) \<Rightarrow> (tr', Some err))"

text \<open>
  The function: it opens the canvas and the image, runs the loops, saves and returns the
  name of the output file. There is no handler in it: an exception of any call leaves
  the function at once.
\<close>

definition create_pdf_labels ::
  "env \<Rightarrow> page_settings \<Rightarrow> label_info \<Rightarrow> layout \<Rightarrow> string \<Rightarrow> event list
     \<Rightarrow> event list \<times> (error + string)" where
  "create_pdf_labels e page_settings label_info layout output_file tr =
     (if \<not> accepts e tr (NewCanvas output_file (page_size page_settings))
      then (tr, Inl BackendFailure)
      else let tr1 = tr @ [NewCanvas output_file (page_size page_settings)] in
      if \<not> accepts e tr1 (ReadImage (path label_info))
      then (tr1, Inl BackendFailure)
      else let tr2 = tr1 @ [ReadImage (path label_info)] in
      case outer_loop e page_settings label_info layout (py_range (rows label_info)) tr2 of
        (tr3, Some err) \<Rightarrow> (tr3, Inl err)
      | (tr3, None) \<Rightarrow>
          if \<not> accepts e tr3 (Save output_file)
          then (tr3, Inl BackendFailure)
          else (tr3 @ [Save output_file], Inr output_file))"

subsection \<open>The loop of \<^verbatim>\<open>main\<close>\<close>

text \<open>An uploaded file: its name and its content.\<close>

record upload =
  name :: string
  buffer :: "nat list"

text \<open>
  The text of the field "Label Dimensions" and what line 88 makes of it: the field is
  empty, or \<^verbatim>\<open>map(float, label_dimensions.split('x'))\<close> gives two numbers, or that
  line raises \<^verbatim>\<open>ValueError\<close>.
\<close>

datatype dimension_text = NoText | WxH real real | Malformed

text \<open>The values of the widgets when the button is pressed; they are the same for every file.\<close>

record form =
  form_settings :: page_settings
  page_size_display :: string
  label_rows :: int
  label_columns :: int
  label_dimensions :: dimension_text

text \<open>Line 95.\<close>

definition output_filename :: "env \<Rightarrow> form \<Rightarrow> upload \<Rightarrow> string" where
  "output_filename e f label_file =
     stem e (name label_file) @ ''-'' @ lower e (page_size_display f) @ ''-''
       @ str_of_int e (label_rows f * label_columns f) @ ''.pdf''"

text \<open>
  Lines 92 to 100, the \<^verbatim>\<open>try\<close> block with its handler: every exception raised
  inside is reported with \<^verbatim>\<open>st.error\<close>, so the block itself never raises.
\<close>

definition try_block :: "env \<Rightarrow> form \<Rightarrow> upload \<Rightarrow> page_settings \<Rightarrow> label_info \<Rightarrow> event list \<Rightarrow> event list" where
  "try_block e f label_file page_settings label_info tr =
     (case calculate_layout page_settings label_info of
        (label_info', Inl err) \<Rightarrow> tr @ [StError (name label_file) err]
      | (label_info', Inr layout) \<Rightarrow>
          (case create_pdf_labels e page_settings label_info' layout
                  (output_filename e f label_file) tr of
             (tr', Inl err) \<Rightarrow> tr' @ [StError (name label_file) err]
           | (tr', Inr output_file) \<Rightarrow>
               (let tr2 = tr' @ [StSuccess (name label_file)] in
                if accepts e tr2 (ReadFile output_file)
                then tr2 @ [ReadFile output_file, StDownload (output_filename e f label_file)]
                else tr2 @ [StError (name label_file) BackendFailure])))"



subsection \<open>Observations on a log\<close>

text \<open>
  The calls that finalise a document, the calls that draw, the messages that close the work
  on one file, the calls of \<^verbatim>\<open>create_pdf_labels\<close> before the save, and the writes of an
  upload.
\<close>

fun is_save :: "event \<Rightarrow> bool" where
  "is_save (Save _) = True"
| "is_save _ = False"

fun is_draw :: "event \<Rightarrow> bool" where
  "is_draw (DrawImage _ _ _ _ _ _) = True"
| "is_draw _ = False"

fun is_report :: "event \<Rightarrow> bool" where
  "is_report (StDownload _) = True"
| "is_report (StError _ _) = True"
| "is_report _ = False"

fun is_render :: "event \<Rightarrow> bool" where
  "is_render (NewCanvas _ _) = True"
| "is_render (ReadImage _) = True"
| "is_render (DrawImage _ _ _ _ _ _) = True"
| "is_render _ = False"


subsection \<open>Inputs for the examples\<close>

text \<open>
  \<^verbatim>\<open>reportlab.lib.pagesizes.A4\<close> is \<^verbatim>\<open>(210*mm, 297*mm)\<close>. \<open>sheet\<close> builds the
  \<^verbatim>\<open>page_settings\<close> of line 85 with the same margin (in millimetres) above and below and
  the same margin left and right, and \<open>grid\<close> the \<^verbatim>\<open>label_info\<close> of lines 86 to 89.
\<close>

definition A4 :: "real \<times> real" where
  "A4 = (210 * mm, 297 * mm)"

definition sheet :: "real \<times> real \<Rightarrow> real \<Rightarrow> real \<Rightarrow> page_settings" where
  "sheet pagesize top_bottom left_right =
     \<lparr>page_size = pagesize,
      margins = \<lparr>top_margin = top_bottom, bottom_margin = top_bottom,
                 left_margin = left_right, right_margin = left_right\<rparr>,
      orientation = Portrait\<rparr>"

definition grid :: "int \<Rightarrow> int \<Rightarrow> (real \<times> real) option \<Rightarrow> label_info" where
  "grid r c d = \<lparr>path = ''label.png'', rows = r, columns = c, dimensions = d\<rparr>"

text \<open>
  An environment for the examples. Its argument says which calls return. The functions
  that build file names are simple versions of the library's, right on the names used in
  the examples: the stem of a plain file name with one suffix, the lower case of the four
  page size names of line 49, and the decimal digits of an integer.
\<close>

fun decimal :: "nat \<Rightarrow> string" where
  "decimal n =
     (if n < 10 then [''0123456789'' ! n]
      else decimal (n div 10) @ [''0123456789'' ! (n mod 10)])"

definition lower_display :: "string \<Rightarrow> string" where
  "lower_display s =
     (if s = ''A4'' then ''a4'' else if s = ''Letter'' then ''letter''
      else if s = ''Legal'' then ''legal'' else if s = ''Custom'' then ''custom'' else s)"

definition example_env :: "(event list \<Rightarrow> event \<Rightarrow> bool) \<Rightarrow> env" where
  "example_env ok =
     \<lparr>accepts = ok,
      stem = takeWhile (\<lambda>c. c \<noteq> CHR ''.''),
      path_str = (\<lambda>s. s),
      lower = lower_display,
      str_of_int = (\<lambda>n. if n < 0 then CHR ''-'' # decimal (nat (- n)) else decimal (nat n))\<rparr>"

text \<open>The environment in which every call returns.\<close>

definition all_ok :: "event list \<Rightarrow> event \<Rightarrow> bool" where
  "all_ok tr ev = True"

text \<open>The environment in which every \<^verbatim>\<open>drawImage\<close> raises and every other call returns.\<close>

definition no_draw :: "event list \<Rightarrow> event \<Rightarrow> bool" where
  "no_draw tr ev = (\<not> is_draw ev)"




subsection \<open>Basic facts about \<^verbatim>\<open>calculate_layout\<close>\<close>

lemma mm_pos: "0 < mm"
  by (simp add: mm_def)

lemma label_size_derived:
  assumes "dimensions li = None" "columns li \<noteq> 0" "rows li \<noteq> 0"
  shows "label_size ps li =
    Inr (li\<lparr>dimensions := Some (available_width ps / of_int (columns li) / mm,
                                 available_height ps / of_int (rows li) / mm)\<rparr>,
         available_width ps / of_int (columns li), available_height ps / of_int (rows li))"
  using assms mm_pos by (simp add: label_size_def truediv_def bind_err_def)

lemma label_size_explicit:
  assumes "dimensions li = Some (w, h)"
  shows "label_size ps li = Inr (li, w * mm, h * mm)"
  using assms by (simp add: label_size_def)

lemma label_size_zero:
  assumes "dimensions li = None" "columns li = 0 \<or> rows li = 0"
  shows "label_size ps li = Inl ZeroDivisionError"
  using assms by (auto simp add: label_size_def truediv_def bind_err_def)

lemma spacing_divisor: "truediv a (of_int (max (n - 1) 1)) = Inr (a / of_int (max (n - 1) 1))"
  by (simp add: truediv_def max_def)

lemma calculate_layout_sized:
  assumes "label_size ps li = Inr (li', lw, lh)"
  shows "snd (calculate_layout ps li) =
    (if lw > available_width ps \<or> lh > available_height ps then Inl TooLarge
     else Inr \<lparr>label_width = lw, label_height = lh,
       space_x = (available_width ps - lw * of_int (columns li')) / of_int (max (columns li' - 1) 1),
       space_y = (available_height ps - lh * of_int (rows li')) / of_int (max (rows li' - 1) 1)\<rparr>)"
  using assms by (simp add: calculate_layout_def spacing_divisor bind_err_def)

lemma calculate_layout_derived:
  assumes "dimensions li = None" "columns li \<noteq> 0" "rows li \<noteq> 0"
  shows "snd (calculate_layout ps li) =
    (if available_width ps / of_int (columns li) > available_width ps
        \<or> available_height ps / of_int (rows li) > available_height ps then Inl TooLarge
     else Inr \<lparr>label_width = available_width ps / of_int (columns li),
               label_height = available_height ps / of_int (rows li),
               space_x = 0, space_y = 0\<rparr>)"
  using assms by (simp add: calculate_layout_sized [OF label_size_derived [OF assms]])

lemma calculate_layout_explicit:
  assumes "dimensions li = Some (w, h)"
  shows "snd (calculate_layout ps li) =
    (if w * mm > available_width ps \<or> h * mm > available_height ps then Inl TooLarge
     else Inr \<lparr>label_width = w * mm, label_height = h * mm,
       space_x = (available_width ps - w * mm * of_int (columns li)) / of_int (max (columns li - 1) 1),
       space_y = (available_height ps - h * mm * of_int (rows li)) / of_int (max (rows li - 1) 1)\<rparr>)"
  by (simp add: calculate_layout_sized [OF label_size_explicit [OF assms]])

lemma calculate_layout_zero:
  assumes "dimensions li = None" "columns li = 0 \<or> rows li = 0"
  shows "calculate_layout ps li = (li, Inl ZeroDivisionError)"
  by (simp add: calculate_layout_def label_size_zero [OF assms])



lemma returned_layout_spacing:
  assumes "snd (calculate_layout ps li) = Inr l"
  shows "space_x l = (available_width ps - label_width l * of_int (columns li))
                       / of_int (max (columns li - 1) 1)
       \<and> space_y l = (available_height ps - label_height l * of_int (rows li))
                       / of_int (max (rows li - 1) 1)
       \<and> label_width l \<le> available_width ps \<and> label_height l \<le> available_height ps"
proof (cases "dimensions li")
  case None
  show ?thesis
  proof (cases "columns li = 0 \<or> rows li = 0")
    case True
    from calculate_layout_zero [OF None True, of ps] assms show ?thesis by simp
  next
    case False
    then have nz: "columns li \<noteq> 0" "rows li \<noteq> 0" by auto
    from assms show ?thesis
      by (auto simp add: None nz calculate_layout_derived [OF None nz] not_less split: if_splits)
  qed
next
  case (Some d)
  obtain w h where d: "d = (w, h)" by (cases d)
  from assms show ?thesis
    using Some d by (auto simp add: calculate_layout_explicit [of li w h] not_less split: if_splits)
qed

lemma no_zero_division:
  assumes "rows li \<noteq> 0" and "columns li \<noteq> 0"
  shows "snd (calculate_layout ps li) \<noteq> Inl ZeroDivisionError"
proof (cases "dimensions li")
  case None
  show ?thesis
    by (simp add: calculate_layout_derived [OF None assms(2) assms(1)])
next
  case (Some d)
  obtain w h where d: "d = (w, h)" by (cases d)
  show ?thesis
    using Some d by (simp add: calculate_layout_explicit [of li w h])
qed

lemmas example_defs = A4_def sheet_def grid_def available_width_def available_height_def mm_def

subsection \<open>The layout: size, spacing and the check\<close>

text \<open>
  In the statements below the available width and height of the specification are
  \<open>available_width\<close> and \<open>available_height\<close>, its margins are the margins of
  \<^verbatim>\<open>page_settings\<close> multiplied by \<open>mm\<close>, its explicit cell size is \<^verbatim>\<open>'dimensions'\<close> multiplied
  by \<open>mm\<close>, and its error \<open>LayoutError(TooLarge)\<close> is \<open>TooLarge\<close>.
\<close>





text \<open>
  Claim C5. For a request with at least one row and one column the function never
  raises \<open>ZeroDivisionError\<close>: the divisors \<open>max (columns - 1) 1\<close> and
  \<open>max (rows - 1) 1\<close> are at least 1, and the spacing of a returned layout is the
  quotient of the specification. With one column the horizontal spacing is the available
  width minus the label width, which need not be zero (110 mm and 197 mm for one label of
  100 mm by 100 mm on A4), and a grid of one cell is laid out also when the available
  width is negative.
\<close>

theorem spacing_formula_no_division_by_zero:
  assumes "1 \<le> rows li" and "1 \<le> columns li"
  shows "snd (calculate_layout ps li) \<noteq> Inl ZeroDivisionError
       \<and> 1 \<le> max (columns li - 1) 1 \<and> 1 \<le> max (rows li - 1) 1
       \<and> (\<forall>a. truediv a (of_int (max (columns li - 1) 1)) = Inr (a / of_int (max (columns li - 1) 1)))
       \<and> (\<forall>a. truediv a (of_int (max (rows li - 1) 1)) = Inr (a / of_int (max (rows li - 1) 1)))
       \<and> (\<forall>l. snd (calculate_layout ps li) = Inr l \<longrightarrow>
              space_x l = (available_width ps - label_width l * of_int (columns li))
                            / of_int (max (columns li - 1) 1)
            \<and> space_y l = (available_height ps - label_height l * of_int (rows li))
                            / of_int (max (rows li - 1) 1)
            \<and> (columns li = 1 \<longrightarrow> space_x l = available_width ps - label_width l)
            \<and> (rows li = 1 \<longrightarrow> space_y l = available_height ps - label_height l))
       \<and> (\<exists>l. snd (calculate_layout (sheet A4 0 0) (grid 1 1 (Some (100, 100)))) = Inr l
             \<and> space_x l = 110 * mm \<and> space_y l = 197 * mm)
       \<and> (\<exists>l. available_width (sheet A4 0 200) < 0
             \<and> snd (calculate_layout (sheet A4 0 200) (grid 1 1 None)) = Inr l
             \<and> space_x l = 0 \<and> space_y l = 0)"
proof -
  have nz: "rows li \<noteq> 0" "columns li \<noteq> 0"
    using assms by auto
  have formula: "\<forall>l. snd (calculate_layout ps li) = Inr l \<longrightarrow>
              space_x l = (available_width ps - label_width l * of_int (columns li))
                            / of_int (max (columns li - 1) 1)
            \<and> space_y l = (available_height ps - label_height l * of_int (rows li))
                            / of_int (max (rows li - 1) 1)
            \<and> (columns li = 1 \<longrightarrow> space_x l = available_width ps - label_width l)
            \<and> (rows li = 1 \<longrightarrow> space_y l = available_height ps - label_height l)"
  proof (intro allI impI)
    fix l
    assume "snd (calculate_layout ps li) = Inr l"
    from returned_layout_spacing [OF this]
    show "space_x l = (available_width ps - label_width l * of_int (columns li))
                            / of_int (max (columns li - 1) 1)
            \<and> space_y l = (available_height ps - label_height l * of_int (rows li))
                            / of_int (max (rows li - 1) 1)
            \<and> (columns li = 1 \<longrightarrow> space_x l = available_width ps - label_width l)
            \<and> (rows li = 1 \<longrightarrow> space_y l = available_height ps - label_height l)"
      by simp
  qed
  have one_by_one: "\<exists>l. snd (calculate_layout (sheet A4 0 0) (grid 1 1 (Some (100, 100)))) = Inr l
             \<and> space_x l = 110 * mm \<and> space_y l = 197 * mm"
    by (simp add: calculate_layout_explicit [of _ 100 100] example_defs)
  have negative: "\<exists>l. available_width (sheet A4 0 200) < 0
             \<and> snd (calculate_layout (sheet A4 0 200) (grid 1 1 None)) = Inr l
             \<and> space_x l = 0 \<and> space_y l = 0"
    by (simp add: calculate_layout_derived grid_def) (simp add: example_defs)
  show ?thesis
    using no_zero_division [OF nz, of ps] formula one_by_one negative
    by (simp add: spacing_divisor)
qed

theorem spacing_formula_no_division_by_zero_witness:
  "1 \<le> rows (grid 1 3 (Some (50, 100))) \<and> 1 \<le> columns (grid 1 3 (Some (50, 100)))
   \<and> snd (calculate_layout (sheet A4 0 0) (grid 1 3 (Some (50, 100)))) =
       Inr \<lparr>label_width = 50 * mm, label_height = 100 * mm, space_x = 30 * mm, space_y = 197 * mm\<rparr>
   \<and> space_x \<lparr>label_width = 50 * mm, label_height = 100 * mm, space_x = 30 * mm, space_y = 197 * mm\<rparr>
       = (available_width (sheet A4 0 0) - 50 * mm * 3) / 2"
  using spacing_formula_no_division_by_zero [of "grid 1 3 (Some (50, 100))" "sheet A4 0 0"]
  by (simp add: calculate_layout_explicit [of _ 50 100] example_defs)










subsection \<open>The loops of \<^verbatim>\<open>create_pdf_labels\<close>\<close>

lemma inner_loop_all_accepted:
  assumes "\<forall>t ev. accepts e t ev"
  shows "inner_loop e ps li lay row cols tr = (tr @ map (draw_call ps li lay row) cols, None)"
  using assms by (induction cols arbitrary: tr) simp_all

lemma outer_loop_all_accepted:
  assumes "\<forall>t ev. accepts e t ev"
  shows "outer_loop e ps li lay rws tr =
    (tr @ concat (map (\<lambda>row. map (draw_call ps li lay row) (py_range (columns li))) rws), None)"
  by (induction rws arbitrary: tr) (simp_all add: inner_loop_all_accepted [OF assms])

lemma create_pdf_labels_all_accepted:
  assumes "\<forall>t ev. accepts e t ev"
  shows "create_pdf_labels e ps li lay out tr =
    (tr @ [NewCanvas out (page_size ps), ReadImage (path li)]
        @ concat (map (\<lambda>row. map (draw_call ps li lay row) (py_range (columns li)))
                      (py_range (rows li)))
        @ [Save out], Inr out)"
  using assms by (simp add: create_pdf_labels_def outer_loop_all_accepted [OF assms])

lemma grid_index_less:
  fixes i j m n :: nat
  assumes "i < m" and "j < n"
  shows "i * n + j < m * n"
proof -
  have "i * n + j < i * n + n" using assms(2) by simp
  also have "\<dots> = Suc i * n" by simp
  also have "\<dots> \<le> m * n" using assms(1) by (intro mult_le_mono1) simp
  finally show ?thesis .
qed

lemma length_concat_grid:
  "length (concat (map (\<lambda>i. map (g i) [0..<n]) [0..<m])) = m * n"
  by (induction m) simp_all

lemma nth_concat_grid:
  assumes "i < m" and "j < n"
  shows "concat (map (\<lambda>i. map (g i) [0..<n]) [0..<m]) ! (i * n + j) = g i j"
  using assms(1)
proof (induction m)
  case 0
  then show ?case by simp
next
  case (Suc m)
  show ?case
  proof (cases "i < m")
    case True
    from grid_index_less [OF True assms(2)] Suc.IH [OF True]
    show ?thesis by (simp add: nth_append length_concat_grid)
  next
    case False
    with Suc.prems have "i = m" by simp
    then show ?thesis using assms(2) by (simp add: nth_append length_concat_grid)
  qed
qed

lemma draws_as_grid:
  "concat (map (\<lambda>row. map (draw_call ps li lay row) (py_range c)) (py_range r))
     = concat (map (\<lambda>i. map (\<lambda>j. draw_call ps li lay (int i) (int j)) [0..<nat c]) [0..<nat r])"
  by (simp add: py_range_def comp_def)

lemma py_range_2: "py_range 2 = [0, 1]"
  by (simp add: py_range_def upt_rec)

lemma is_draw_draw_call: "is_draw (draw_call ps li lay row col)"
  by (simp add: draw_call_def)

lemma inner_loop_appends:
  "\<exists>evs. fst (inner_loop e ps li lay row cols tr) = tr @ evs \<and> list_all is_draw evs"
proof (induction cols arbitrary: tr)
  case Nil
  show ?case by simp
next
  case (Cons col cols)
  show ?case
  proof (cases "accepts e tr (draw_call ps li lay row col)")
    case True
    from Cons.IH [of "tr @ [draw_call ps li lay row col]"]
    obtain evs where
      "fst (inner_loop e ps li lay row cols (tr @ [draw_call ps li lay row col]))
         = (tr @ [draw_call ps li lay row col]) @ evs" and "list_all is_draw evs"
      by blast
    then have "fst (inner_loop e ps li lay row (col # cols) tr) = tr @ (draw_call ps li lay row col # evs)
        \<and> list_all is_draw (draw_call ps li lay row col # evs)"
      using True by (simp add: is_draw_draw_call)
    then show ?thesis by blast
  next
    case False
    then show ?thesis by simp
  qed
qed

lemma outer_loop_appends:
  "\<exists>evs. fst (outer_loop e ps li lay rws tr) = tr @ evs \<and> list_all is_draw evs"
proof (induction rws arbitrary: tr)
  case Nil
  show ?case by simp
next
  case (Cons row rws)
  obtain tr' r where inner: "inner_loop e ps li lay row (py_range (columns li)) tr = (tr', r)"
    by (cases "inner_loop e ps li lay row (py_range (columns li)) tr")
  from inner_loop_appends [of e ps li lay row "py_range (columns li)" tr] inner
  obtain evs where evs: "tr' = tr @ evs" "list_all is_draw evs"
    by auto
  show ?case
  proof (cases r)
    case None
    from Cons.IH [of tr'] obtain evs' where
      "fst (outer_loop e ps li lay rws tr') = tr' @ evs'" and "list_all is_draw evs'"
      by blast
    then have "fst (outer_loop e ps li lay (row # rws) tr) = tr @ (evs @ evs')
        \<and> list_all is_draw (evs @ evs')"
      using inner None evs by simp
    then show ?thesis by blast
  next
    case (Some err)
    then have "fst (outer_loop e ps li lay (row # rws) tr) = tr @ evs"
      using inner evs by simp
    with evs(2) show ?thesis by blast
  qed
qed

lemma draws_are_render: "list_all is_draw evs \<Longrightarrow> list_all is_render evs"
  by (induction evs) (auto elim: is_draw.elims)

lemma render_no_save: "list_all is_render evs \<Longrightarrow> filter is_save evs = []"
  by (induction evs) (auto elim: is_render.elims)

lemma render_no_report: "list_all is_render evs \<Longrightarrow> filter is_report evs = []"
  by (induction evs) (auto elim: is_render.elims)


lemma create_pdf_labels_cases:
  "(\<exists>evs. create_pdf_labels e ps li lay out tr = (tr @ evs @ [Save out], Inr out)
          \<and> list_all is_render evs)
   \<or> (\<exists>evs err. create_pdf_labels e ps li lay out tr = (tr @ evs, Inl err)
          \<and> list_all is_render evs)"
proof -
  let ?tr2 = "tr @ [NewCanvas out (page_size ps), ReadImage (path li)]"
  obtain tr3 r where outer: "outer_loop e ps li lay (py_range (rows li)) ?tr2 = (tr3, r)"
    by (cases "outer_loop e ps li lay (py_range (rows li)) ?tr2")
  from outer_loop_appends [of e ps li lay "py_range (rows li)" ?tr2] outer
  obtain evs where evs: "tr3 = ?tr2 @ evs" "list_all is_draw evs"
    by auto
  let ?evs = "[NewCanvas out (page_size ps), ReadImage (path li)] @ evs"
  have clean: "list_all is_render ?evs"
    using draws_are_render [OF evs(2)] by simp
  consider (canvas) "\<not> accepts e tr (NewCanvas out (page_size ps))"
    | (image) "accepts e tr (NewCanvas out (page_size ps))"
        "\<not> accepts e (tr @ [NewCanvas out (page_size ps)]) (ReadImage (path li))"
    | (loops) "accepts e tr (NewCanvas out (page_size ps))"
        "accepts e (tr @ [NewCanvas out (page_size ps)]) (ReadImage (path li))"
    by blast
  then show ?thesis
  proof cases
    case canvas
    then have "create_pdf_labels e ps li lay out tr = (tr @ [], Inl BackendFailure)"
      by (simp add: create_pdf_labels_def)
    then show ?thesis by (intro disjI2 exI [of _ "[]"] exI [of _ BackendFailure]) simp
  next
    case image
    then have "create_pdf_labels e ps li lay out tr
        = (tr @ [NewCanvas out (page_size ps)], Inl BackendFailure)"
      by (simp add: create_pdf_labels_def)
    then show ?thesis
      by (intro disjI2 exI [of _ "[NewCanvas out (page_size ps)]"] exI [of _ BackendFailure]) simp
  next
    case loops
    show ?thesis
    proof (cases r)
      case (Some err)
      then have "create_pdf_labels e ps li lay out tr = (tr @ ?evs, Inl err)"
        using loops outer evs(1) by (simp add: create_pdf_labels_def)
      with clean show ?thesis by blast
    next
      case None
      show ?thesis
      proof (cases "accepts e tr3 (Save out)")
        case True
        then have "create_pdf_labels e ps li lay out tr = (tr @ ?evs @ [Save out], Inr out)"
          using loops outer evs(1) None by (simp add: create_pdf_labels_def)
        with clean show ?thesis by blast
      next
        case False
        then have "create_pdf_labels e ps li lay out tr = (tr @ ?evs, Inl BackendFailure)"
          using loops outer evs(1) None by (simp add: create_pdf_labels_def)
        with clean show ?thesis by blast
      qed
    qed
  qed
qed

text \<open>
  Claim C3. When every call of the library returns and the grid has at least one row
  and one column, \<^verbatim>\<open>create_pdf_labels\<close> opens the canvas and the image, issues
  \<open>rows * columns\<close> calls of \<^verbatim>\<open>drawImage\<close> and saves. The call for the cell
  \<open>(row, col)\<close> is the one of index \<open>row * columns + col\<close> (row by row, row 0 first), at
  \<open>x = left_margin * mm + col * (label_width + space_x)\<close> and
  \<open>y = page height - (top_margin * mm + (row + 1) * label_height + row * space_y)\<close>,
  with the width and height of the layout and \<^verbatim>\<open>preserveAspectRatio=True\<close>.
\<close>

theorem render_grid_row_major:
  assumes "1 \<le> rows li" and "1 \<le> columns li" and "\<forall>t ev. accepts e t ev"
  shows "\<exists>draws.
      create_pdf_labels e ps li lay out tr =
        (tr @ [NewCanvas out (page_size ps), ReadImage (path li)] @ draws @ [Save out], Inr out)
    \<and> length draws = nat (rows li * columns li)
    \<and> list_all is_draw draws
    \<and> (\<forall>row col. 0 \<le> row \<and> row < rows li \<and> 0 \<le> col \<and> col < columns li \<longrightarrow>
          draws ! nat (row * columns li + col) =
            DrawImage (path li)
              (left_margin (margins ps) * mm + of_int col * (label_width lay + space_x lay))
              (snd (page_size ps)
                 - (top_margin (margins ps) * mm + of_int (row + 1) * label_height lay
                    + of_int row * space_y lay))
              (label_width lay) (label_height lay) True)"
proof -
  define draws where
    "draws = concat (map (\<lambda>row. map (draw_call ps li lay row) (py_range (columns li)))
                         (py_range (rows li)))"
  have grid: "draws = concat (map (\<lambda>i. map (\<lambda>j. draw_call ps li lay (int i) (int j))
                                         [0..<nat (columns li)]) [0..<nat (rows li)])"
    unfolding draws_def by (rule draws_as_grid)
  have run: "create_pdf_labels e ps li lay out tr =
        (tr @ [NewCanvas out (page_size ps), ReadImage (path li)] @ draws @ [Save out], Inr out)"
    unfolding draws_def by (rule create_pdf_labels_all_accepted [OF assms(3)])
  have len: "length draws = nat (rows li * columns li)"
    using assms(1,2) by (simp add: grid length_concat_grid nat_mult_distrib)
  have all_draws: "list_all is_draw draws"
    by (simp add: grid list_all_iff draw_call_def)
  have cells: "draws ! nat (row * columns li + col) =
            DrawImage (path li)
              (left_margin (margins ps) * mm + of_int col * (label_width lay + space_x lay))
              (snd (page_size ps)
                 - (top_margin (margins ps) * mm + of_int (row + 1) * label_height lay
                    + of_int row * space_y lay))
              (label_width lay) (label_height lay) True"
    if "0 \<le> row \<and> row < rows li \<and> 0 \<le> col \<and> col < columns li" for row col
  proof -
    have i: "nat row < nat (rows li)" and j: "nat col < nat (columns li)"
      using that by simp_all
    have idx: "nat (row * columns li + col) = nat row * nat (columns li) + nat col"
      using that by (simp add: nat_add_distrib nat_mult_distrib)
    have "draws ! nat (row * columns li + col) = draw_call ps li lay (int (nat row)) (int (nat col))"
      unfolding grid idx by (rule nth_concat_grid [OF i j])
    then show ?thesis
      using that by (simp add: draw_call_def)
  qed
  from run len all_draws cells show ?thesis by blast
qed

theorem render_grid_row_major_witness:
  "1 \<le> rows (grid 2 2 None) \<and> 1 \<le> columns (grid 2 2 None)
   \<and> (\<forall>t ev. accepts (example_env all_ok) t ev)
   \<and> (\<exists>draws.
        create_pdf_labels (example_env all_ok) (sheet A4 10 10) (grid 2 2 None)
          \<lparr>label_width = 90 * mm, label_height = 130 * mm, space_x = 10 * mm, space_y = 17 * mm\<rparr>
          ''label-a4-4.pdf'' [] =
          ([NewCanvas ''label-a4-4.pdf'' A4, ReadImage ''label.png''] @ draws
             @ [Save ''label-a4-4.pdf''], Inr ''label-a4-4.pdf'')
      \<and> length draws = 4
      \<and> draws ! 0 = DrawImage ''label.png'' (10 * mm) (157 * mm) (90 * mm) (130 * mm) True
      \<and> draws ! 1 = DrawImage ''label.png'' (110 * mm) (157 * mm) (90 * mm) (130 * mm) True
      \<and> draws ! 2 = DrawImage ''label.png'' (10 * mm) (10 * mm) (90 * mm) (130 * mm) True
      \<and> draws ! 3 = DrawImage ''label.png'' (110 * mm) (10 * mm) (90 * mm) (130 * mm) True)"
proof -
  have h: "1 \<le> rows (grid 2 2 None)" "1 \<le> columns (grid 2 2 None)"
      "\<forall>t ev. accepts (example_env all_ok) t ev"
    by (simp_all add: grid_def example_env_def all_ok_def)
  from render_grid_row_major [OF h, of "sheet A4 10 10"
     "\<lparr>label_width = 90 * mm, label_height = 130 * mm, space_x = 10 * mm, space_y = 17 * mm\<rparr>"
     "''label-a4-4.pdf''" "[]"]
  obtain draws where
    run: "create_pdf_labels (example_env all_ok) (sheet A4 10 10) (grid 2 2 None)
          \<lparr>label_width = 90 * mm, label_height = 130 * mm, space_x = 10 * mm, space_y = 17 * mm\<rparr>
          ''label-a4-4.pdf'' [] =
          ([] @ [NewCanvas ''label-a4-4.pdf'' (page_size (sheet A4 10 10)), ReadImage (path (grid 2 2 None))] @ draws
             @ [Save ''label-a4-4.pdf''], Inr ''label-a4-4.pdf'')"
    and len: "length draws = nat (rows (grid 2 2 None) * columns (grid 2 2 None))"
    and cells: "\<forall>row col. 0 \<le> row \<and> row < rows (grid 2 2 None) \<and> 0 \<le> col \<and> col < columns (grid 2 2 None) \<longrightarrow>
          draws ! nat (row * columns (grid 2 2 None) + col) =
            DrawImage (path (grid 2 2 None))
              (left_margin (margins (sheet A4 10 10)) * mm + of_int col * (90 * mm + 10 * mm))
              (snd (page_size (sheet A4 10 10))
                 - (top_margin (margins (sheet A4 10 10)) * mm + of_int (row + 1) * (130 * mm)
                    + of_int row * (17 * mm)))
              (90 * mm) (130 * mm) True"
    by auto
  from cells [rule_format, of 0 0] cells [rule_format, of 0 1]
       cells [rule_format, of 1 0] cells [rule_format, of 1 1]
  have "draws ! 0 = DrawImage ''label.png'' (10 * mm) (157 * mm) (90 * mm) (130 * mm) True
      \<and> draws ! 1 = DrawImage ''label.png'' (110 * mm) (157 * mm) (90 * mm) (130 * mm) True
      \<and> draws ! 2 = DrawImage ''label.png'' (10 * mm) (10 * mm) (90 * mm) (130 * mm) True
      \<and> draws ! 3 = DrawImage ''label.png'' (110 * mm) (10 * mm) (90 * mm) (130 * mm) True"
    by (simp add: grid_def sheet_def A4_def)
  with h run len show ?thesis
    by (simp add: grid_def sheet_def)
qed

text \<open>
  Claim C4. The page is 210 by 297 points and every margin is 10 points, that is
  \<open>10 / mm\<close> millimetres in \<^verbatim>\<open>page_settings\<close>; two rows, two columns, no explicit size.
  The available area is 190 by 277, the layout is 95 by 138.5 with both spacings zero,
  and the four cells are drawn at \<open>(10, 148.5)\<close>, \<open>(105, 148.5)\<close>, \<open>(10, 10)\<close> and
  \<open>(105, 10)\<close>: the cell of row 0 and column 0 has \<open>x = 10\<close>, the cell of row 0 and
  column 1 has \<open>x = 105\<close>, the cell of row 1 and column 0 has \<open>y = 10\<close>.
\<close>

theorem a4_two_by_two_example:
  "available_width (sheet (210, 297) (10 / mm) (10 / mm)) = 190
   \<and> available_height (sheet (210, 297) (10 / mm) (10 / mm)) = 277
   \<and> calculate_layout (sheet (210, 297) (10 / mm) (10 / mm)) (grid 2 2 None) =
       (grid 2 2 (Some (95 / mm, 138.5 / mm)),
        Inr \<lparr>label_width = 95, label_height = 138.5, space_x = 0, space_y = 0\<rparr>)
   \<and> create_pdf_labels (example_env all_ok) (sheet (210, 297) (10 / mm) (10 / mm))
        (grid 2 2 (Some (95 / mm, 138.5 / mm)))
        \<lparr>label_width = 95, label_height = 138.5, space_x = 0, space_y = 0\<rparr> ''label-a4-4.pdf'' [] =
       ([NewCanvas ''label-a4-4.pdf'' (210, 297), ReadImage ''label.png'',
         DrawImage ''label.png'' 10 148.5 95 138.5 True,
         DrawImage ''label.png'' 105 148.5 95 138.5 True,
         DrawImage ''label.png'' 10 10 95 138.5 True,
         DrawImage ''label.png'' 105 10 95 138.5 True,
         Save ''label-a4-4.pdf''], Inr ''label-a4-4.pdf'')"
proof -
  have aw: "available_width (sheet (210, 297) (10 / mm) (10 / mm)) = 190"
    and ah: "available_height (sheet (210, 297) (10 / mm) (10 / mm)) = 277"
    by (simp_all add: available_width_def available_height_def sheet_def mm_def)
  have lay: "calculate_layout (sheet (210, 297) (10 / mm) (10 / mm)) (grid 2 2 None) =
       (grid 2 2 (Some (95 / mm, 138.5 / mm)),
        Inr \<lparr>label_width = 95, label_height = 138.5, space_x = 0, space_y = 0\<rparr>)"
    by (simp add: calculate_layout_def label_size_def truediv_def bind_err_def
          available_width_def available_height_def sheet_def grid_def mm_def)
  have ok: "\<forall>t ev. accepts (example_env all_ok) t ev"
    by (simp add: example_env_def all_ok_def)
  have draw: "create_pdf_labels (example_env all_ok) (sheet (210, 297) (10 / mm) (10 / mm))
        (grid 2 2 (Some (95 / mm, 138.5 / mm)))
        \<lparr>label_width = 95, label_height = 138.5, space_x = 0, space_y = 0\<rparr> ''label-a4-4.pdf'' [] =
       ([NewCanvas ''label-a4-4.pdf'' (210, 297), ReadImage ''label.png'',
         DrawImage ''label.png'' 10 148.5 95 138.5 True,
         DrawImage ''label.png'' 105 148.5 95 138.5 True,
         DrawImage ''label.png'' 10 10 95 138.5 True,
         DrawImage ''label.png'' 105 10 95 138.5 True,
         Save ''label-a4-4.pdf''], Inr ''label-a4-4.pdf'')"
    by (simp add: create_pdf_labels_all_accepted [OF ok] grid_def py_range_2 draw_call_def sheet_def mm_def)
  from aw ah lay draw show ?thesis by blast
qed

subsection \<open>One file of the batch\<close>

lemma try_block_cases:
  "(\<exists>pre. try_block e f lf ps li tr =
            tr @ pre @ [Save (output_filename e f lf), StSuccess (name lf),
                        ReadFile (output_filename e f lf), StDownload (output_filename e f lf)]
          \<and> list_all is_render pre)
   \<or> (\<exists>pre err. try_block e f lf ps li tr =
            tr @ pre @ [Save (output_filename e f lf), StSuccess (name lf), StError (name lf) err]
          \<and> list_all is_render pre)
   \<or> (\<exists>pre err. try_block e f lf ps li tr = tr @ pre @ [StError (name lf) err]
          \<and> list_all is_render pre)"
proof -
  obtain li' r where lay: "calculate_layout ps li = (li', r)"
    by (cases "calculate_layout ps li")
  show ?thesis
  proof (cases r)
    case (Inl err)
    then have "try_block e f lf ps li tr = tr @ [] @ [StError (name lf) err]"
      using lay by (simp add: try_block_def)
    then show ?thesis
      by (intro disjI2 exI [of _ "[]"] exI [of _ err]) simp
  next
    case (Inr layout)
    let ?out = "output_filename e f lf"
    from create_pdf_labels_cases [of e ps li' layout ?out tr]
    show ?thesis
    proof (elim disjE exE conjE)
      fix evs
      assume run: "create_pdf_labels e ps li' layout ?out tr = (tr @ evs @ [Save ?out], Inr ?out)"
        and evs: "list_all is_render evs"
      show ?thesis
      proof (cases "accepts e (tr @ evs @ [Save ?out, StSuccess (name lf)]) (ReadFile ?out)")
        case True
        then have "try_block e f lf ps li tr =
            tr @ evs @ [Save ?out, StSuccess (name lf), ReadFile ?out, StDownload ?out]"
          using lay Inr run by (simp add: try_block_def)
        with evs show ?thesis by blast
      next
        case False
        then have "try_block e f lf ps li tr =
            tr @ evs @ [Save ?out, StSuccess (name lf), StError (name lf) BackendFailure]"
          using lay Inr run by (simp add: try_block_def)
        with evs show ?thesis by blast
      qed
    next
      fix evs err
      assume run: "create_pdf_labels e ps li' layout ?out tr = (tr @ evs, Inl err)"
        and evs: "list_all is_render evs"
      have "try_block e f lf ps li tr = tr @ evs @ [StError (name lf) err]"
        using lay Inr run by (simp add: try_block_def)
      with evs show ?thesis by blast
    qed
  qed
qed

text \<open>
  Claim C8 says that the document is saved exactly once on every path out of the render
  step, the path of a failing \<^verbatim>\<open>drawImage\<close> included. When \<^verbatim>\<open>drawImage\<close> raises,
  \<^verbatim>\<open>create_pdf_labels\<close> is left with the canvas and the image opened and no call of
  \<^verbatim>\<open>save\<close>: the function has no handler.
\<close>

theorem finalised_on_every_path_counterexample:
  "create_pdf_labels (example_env no_draw) (sheet A4 10 10) (grid 2 2 None)
      \<lparr>label_width = 95 * mm, label_height = 138.5 * mm, space_x = 0, space_y = 0\<rparr>
      ''label-a4-4.pdf'' [] =
     ([NewCanvas ''label-a4-4.pdf'' A4, ReadImage ''label.png''], Inl BackendFailure)
   \<and> filter is_save [NewCanvas ''label-a4-4.pdf'' A4, ReadImage ''label.png''] = []"
  by (simp add: create_pdf_labels_def example_env_def no_draw_def sheet_def grid_def
        py_range_2 draw_call_def)

text \<open>
  Claim C8, amended. \<^verbatim>\<open>create_pdf_labels\<close> saves the document exactly once, as its
  last call, when it returns, and not at all when one of its calls raises. In the
  \<^verbatim>\<open>try\<close> block of \<^verbatim>\<open>main\<close> the download is offered only after that one save, the
  success message and the reading of the saved file, in this order; on every other path
  the only message is one \<^verbatim>\<open>st.error\<close> for the file, no download is offered, and the
  document has been saved at most once.
\<close>

theorem finalised_exactly_when_render_returns:
  "(\<exists>evs. fst (create_pdf_labels e ps li lay out tr) = tr @ evs
       \<and> (case snd (create_pdf_labels e ps li lay out tr) of
             Inr file \<Rightarrow> file = out \<and> filter is_save evs = [Save out] \<and> last evs = Save out
           | Inl err \<Rightarrow> filter is_save evs = []))
   \<and> (\<exists>evs. try_block e f lf ps li tr = tr @ evs
       \<and> ((\<exists>pre. evs = pre @ [Save (output_filename e f lf), StSuccess (name lf),
                               ReadFile (output_filename e f lf),
                               StDownload (output_filename e f lf)]
                  \<and> filter is_save pre = [] \<and> filter is_report pre = [])
          \<or> (\<exists>err. filter is_report evs = [StError (name lf) err]
                  \<and> length (filter is_save evs) \<le> 1)))"
proof -
  have render: "\<exists>evs. fst (create_pdf_labels e ps li lay out tr) = tr @ evs
       \<and> (case snd (create_pdf_labels e ps li lay out tr) of
             Inr file \<Rightarrow> file = out \<and> filter is_save evs = [Save out] \<and> last evs = Save out
           | Inl err \<Rightarrow> filter is_save evs = [])"
    using create_pdf_labels_cases [of e ps li lay out tr]
  proof (elim disjE exE conjE)
    fix evs
    assume "create_pdf_labels e ps li lay out tr = (tr @ evs @ [Save out], Inr out)"
      and "list_all is_render evs"
    then show ?thesis
      using render_no_save [of evs] by (intro exI [of _ "evs @ [Save out]"]) simp
  next
    fix evs err
    assume "create_pdf_labels e ps li lay out tr = (tr @ evs, Inl err)"
      and "list_all is_render evs"
    then show ?thesis
      using render_no_save [of evs] by (intro exI [of _ evs]) simp
  qed
  have block: "\<exists>evs. try_block e f lf ps li tr = tr @ evs
       \<and> ((\<exists>pre. evs = pre @ [Save (output_filename e f lf), StSuccess (name lf),
                               ReadFile (output_filename e f lf),
                               StDownload (output_filename e f lf)]
                  \<and> filter is_save pre = [] \<and> filter is_report pre = [])
          \<or> (\<exists>err. filter is_report evs = [StError (name lf) err]
                  \<and> length (filter is_save evs) \<le> 1))"
    using try_block_cases [of e f lf ps li tr]
  proof (elim disjE exE conjE)
    fix pre
    assume "try_block e f lf ps li tr =
            tr @ pre @ [Save (output_filename e f lf), StSuccess (name lf),
                        ReadFile (output_filename e f lf), StDownload (output_filename e f lf)]"
      and "list_all is_render pre"
    then show ?thesis
      using render_no_save [of pre] render_no_report [of pre] by blast
  next
    fix pre err
    assume tb: "try_block e f lf ps li tr =
            tr @ pre @ [Save (output_filename e f lf), StSuccess (name lf), StError (name lf) err]"
      and pre: "list_all is_render pre"
    let ?evs = "pre @ [Save (output_filename e f lf), StSuccess (name lf), StError (name lf) err]"
    have "filter is_report ?evs = [StError (name lf) err]" "length (filter is_save ?evs) \<le> 1"
      using render_no_save [OF pre] render_no_report [OF pre] by simp_all
    with tb show ?thesis by blast
  next
    fix pre err
    assume tb: "try_block e f lf ps li tr = tr @ pre @ [StError (name lf) err]"
      and pre: "list_all is_render pre"
    let ?evs = "pre @ [StError (name lf) err]"
    have "filter is_report ?evs = [StError (name lf) err]" "length (filter is_save ?evs) \<le> 1"
      using render_no_save [OF pre] render_no_report [OF pre] by simp_all
    with tb show ?thesis by blast
  qed
  from render block show ?thesis by blast
qed

subsection \<open>The batch\<close>






end
